theory Spec2Isabelle
  imports Complex_Main
begin

section \<open>llamabot: the SimpleBot completion bridge\<close>

text \<open>
  A shallow embedding of \<^verbatim>\<open>src/llamabot/bot/simplebot.py\<close>: the class \<^verbatim>\<open>SimpleBot\<close>
  with its constructor, \<^verbatim>\<open>__call__\<close> and \<^verbatim>\<open>generate_response\<close>. The collaborators
  that the module imports (the completion client, \<^verbatim>\<open>make_client\<close>, \<^verbatim>\<open>autorecord\<close>,
  \<^verbatim>\<open>default_language_model\<close>) are parameters of the model; every call made to
  them is written to a log, the way a mock object keeps its call list.
\<close>

subsection \<open>Values, messages and errors\<close>

text \<open>
  Exceptions are values. The faults of the collaborators carry the text that
  identifies them; \<open>ValidationError\<close> is the one of the message classes;
  \<open>IndexError\<close>, \<open>TypeError\<close> and \<open>AttributeError\<close> are the ones Python itself raises in
  \<^verbatim>\<open>generate_response\<close>, \<open>NameError\<close> the one for a class used before its definition.
\<close>

datatype error =
    ClientResolutionError string
  | TransportError string
  | APIError string
  | RecorderError string
  | ValidationError
  | IndexError
  | TypeError
  | AttributeError
  | NameError

text \<open>
  Modelled from the spec: the message classes of \<^verbatim>\<open>llamabot.components.messages\<close>
  (\<^verbatim>\<open>SystemMessage\<close>, \<^verbatim>\<open>HumanMessage\<close>, \<^verbatim>\<open>AIMessage\<close>), which are imported by the
  source and not part of it. A message is a role tag and a content, and the
  content is text. The one validation of a constructor is that the content is
  text: given text it builds the message, whatever the text (the empty string
  too); given anything else it raises \<open>ValidationError\<close>. The values that the source
  passes around are text and messages; \<open>pyval\<close> is what a variable may hold.
\<close>

datatype role = System | User | Assistant

datatype message = Message role string

datatype pyval = PStr string | PMsg message

fun msg_role :: "message \<Rightarrow> role" where
  "msg_role (Message r c) = r"

fun msg_content :: "message \<Rightarrow> string" where
  "msg_content (Message r c) = c"

fun SystemMessage :: "pyval \<Rightarrow> error + message" where
  "SystemMessage (PStr c) = Inr (Message System c)"
| "SystemMessage (PMsg m) = Inl ValidationError"

fun HumanMessage :: "pyval \<Rightarrow> error + message" where
  "HumanMessage (PStr c) = Inr (Message User c)"
| "HumanMessage (PMsg m) = Inl ValidationError"

fun AIMessage :: "pyval \<Rightarrow> error + message" where
  "AIMessage (PStr c) = Inr (Message Assistant c)"
| "AIMessage (PMsg m) = Inl ValidationError"

fun role_name :: "role \<Rightarrow> string" where
  "role_name System = ''system''"
| "role_name User = ''user''"
| "role_name Assistant = ''assistant''"

text \<open>
  Modelled from the spec: \<^verbatim>\<open>model_dump\<close> serialises a message to the key-value
  record \<^verbatim>\<open>{role, content}\<close>; the dictionary is an association list.
\<close>

type_synonym msgdict = "(string \<times> pyval) list"

definition model_dump :: "message \<Rightarrow> msgdict" where
  "model_dump m =
     [(''role'', PStr (role_name (msg_role m))), (''content'', PStr (msg_content m))]"

subsection \<open>The client's responses\<close>

text \<open>
  \<^verbatim>\<open>generate_response\<close> reads \<^verbatim>\<open>chunk.choices[0].delta.content\<close> from a chunk of a
  stream and \<^verbatim>\<open>response.choices[0].text\<close> from a completed payload. A stream is a
  finite sequence of chunks that either ends or breaks off with a fault of the
  transport.
\<close>

record delta_t =
  content :: "string option"

record stream_choice =
  delta :: delta_t

record choice =
  "text" :: string

record 'c payload =
  choices :: "'c list"

type_synonym chunk = "stream_choice payload"

type_synonym completion = "choice payload"

datatype response = Stream "chunk list" "error option" | Completion completion

subsection \<open>The world outside the bridge\<close>

text \<open>
  \<open>ext\<close> is the state of the collaborators (the remote service, the recorder's
  store), opaque to the bridge. \<open>events\<close> is the log of what the bridge did to the
  outside: requests sent, fragments printed, recorder invocations.
\<close>

datatype event =
    EvCreate string "msgdict list" real bool
  | EvPrint string
  | EvAutorecord string pyval

record 'e world =
  ext :: 'e
  events :: "event list"

type_synonym ('c, 'e) create_fn =
  "'c \<Rightarrow> string \<Rightarrow> msgdict list \<Rightarrow> real \<Rightarrow> bool \<Rightarrow> 'e \<Rightarrow> (error + response) \<times> 'e"

type_synonym 'e autorecord_fn =
  "string \<Rightarrow> pyval \<Rightarrow> 'e \<Rightarrow> error option \<times> 'e"

fun recorder_calls :: "event list \<Rightarrow> (string \<times> pyval) list" where
  "recorder_calls [] = []"
| "recorder_calls (EvAutorecord p r # evs) = (p, r) # recorder_calls evs"
| "recorder_calls (ev # evs) = recorder_calls evs"

fun requests :: "event list \<Rightarrow> (string \<times> msgdict list \<times> real \<times> bool) list" where
  "requests [] = []"
| "requests (EvCreate m ds t s # evs) = (m, ds, t, s) # requests evs"
| "requests (ev # evs) = requests evs"

subsection \<open>SimpleBot\<close>

record 'c SimpleBot =
  system_prompt :: message
  client :: 'c
  model_name :: string
  temperature :: real
  streaming :: bool

text \<open>
  \<^verbatim>\<open>__init__\<close>. An omitted argument is \<open>None\<close>. The defaults of \<^verbatim>\<open>temperature\<close> and
  \<^verbatim>\<open>streaming\<close> are literals; the default of \<^verbatim>\<open>model_name\<close> is the value that
  \<^verbatim>\<open>default_language_model()\<close> had when the \<^verbatim>\<open>def\<close> statement was executed, here the
  parameter \<open>dflt_model_name\<close>. \<^verbatim>\<open>make_client\<close> may raise; then no object results.
  The system prompt is a string, so \<^verbatim>\<open>SystemMessage\<close> accepts it.
\<close>

definition SimpleBot_init ::
  "string \<Rightarrow> (string \<Rightarrow> error + 'c) \<Rightarrow> string \<Rightarrow> real option \<Rightarrow> string option \<Rightarrow> bool option
     \<Rightarrow> error + 'c SimpleBot" where
  "SimpleBot_init dflt_model_name make_client sp temperature_arg model_name_arg streaming_arg =
     (let t = (case temperature_arg of None \<Rightarrow> 0.0 | Some v \<Rightarrow> v);
          mn = (case model_name_arg of None \<Rightarrow> dflt_model_name | Some v \<Rightarrow> v);
          st = (case streaming_arg of None \<Rightarrow> True | Some v \<Rightarrow> v)
      in case SystemMessage (PStr sp) of
           Inl e \<Rightarrow> Inl e
         | Inr m \<Rightarrow>
             (case make_client mn of
                Inl e \<Rightarrow> Inl e
              | Inr c \<Rightarrow> Inr \<lparr>system_prompt = m, client = c,
                              model_name = mn, temperature = t, streaming = st\<rparr>))"

text \<open>
  The loop of the streaming branch: \<^verbatim>\<open>chunk.choices[0]\<close> raises \<open>IndexError\<close> on a
  chunk without choices; a content that is not \<^verbatim>\<open>None\<close> is printed and appended
  to \<^verbatim>\<open>ai_message\<close>.
\<close>

fun stream_loop :: "chunk list \<Rightarrow> string \<Rightarrow> 'e world \<Rightarrow> (error + string) \<times> 'e world" where
  "stream_loop [] ai_message w = (Inr ai_message, w)"
| "stream_loop (chunk # rest) ai_message w =
     (case choices chunk of
        [] \<Rightarrow> (Inl IndexError, w)
      | c # _ \<Rightarrow>
          (case content (delta c) of
             None \<Rightarrow> stream_loop rest ai_message w
           | Some s \<Rightarrow>
               stream_loop rest (ai_message @ s) (w\<lparr>events := events w @ [EvPrint s]\<rparr>)))"

text \<open>
  \<^verbatim>\<open>generate_response\<close>. The result is the raised error or the returned value,
  with the object and the world after the call. A response of the wrong shape
  for the mode fails: a payload where a stream is iterated is a \<open>TypeError\<close>, a
  stream where \<^verbatim>\<open>.choices\<close> is read an \<open>AttributeError\<close>.
\<close>

definition generate_response ::
  "('c, 'e) create_fn \<Rightarrow> 'c SimpleBot \<Rightarrow> message list \<Rightarrow> 'e world
     \<Rightarrow> (error + pyval) \<times> 'c SimpleBot \<times> 'e world" where
  "generate_response create self messages w =
     (let dumped = map model_dump messages;
          (res, x) = create (client self) (model_name self) dumped (temperature self)
                       (streaming self) (ext w);
          w1 = w\<lparr>ext := x,
                 events := events w @ [EvCreate (model_name self) dumped (temperature self)
                                         (streaming self)]\<rparr>
      in case res of
           Inl e \<Rightarrow> (Inl e, self, w1)
         | Inr response \<Rightarrow>
             if streaming self then
               (case response of
                  Completion p \<Rightarrow> (Inl TypeError, self, w1)
                | Stream chunks fault \<Rightarrow>
                    (case stream_loop chunks [] w1 of
                       (Inl e, w2) \<Rightarrow> (Inl e, self, w2)
                     | (Inr ai_message, w2) \<Rightarrow>
                         (case fault of
                            Some e \<Rightarrow> (Inl e, self, w2)
                          | None \<Rightarrow>
                              (case AIMessage (PStr ai_message) of
                                 Inl e \<Rightarrow> (Inl e, self, w2)
                               | Inr m \<Rightarrow> (Inr (PMsg m), self, w2)))))
             else
               (case response of
                  Stream chunks fault \<Rightarrow> (Inl AttributeError, self, w1)
                | Completion p \<Rightarrow>
                    (case choices p of
                       [] \<Rightarrow> (Inl IndexError, self, w1)
                     | c # _ \<Rightarrow> (Inr (PStr (text c)), self, w1))))"

text \<open>
  \<^verbatim>\<open>__call__\<close>. \<^verbatim>\<open>self.generate_response\<close> is looked up on the object when the call
  is made, so a test can replace it: \<open>SimpleBot_call_with\<close> takes the generation
  step as \<open>gen\<close>, and \<open>SimpleBot_call\<close> is the call with the method of the class.
  The last line wraps whatever the generation step returned: \<^verbatim>\<open>AIMessage\<close> raises
  when that is not text.
\<close>

definition SimpleBot_call_with ::
  "('c SimpleBot \<Rightarrow> message list \<Rightarrow> 'e world \<Rightarrow> (error + pyval) \<times> 'c SimpleBot \<times> 'e world)
     \<Rightarrow> 'e autorecord_fn \<Rightarrow> 'c SimpleBot \<Rightarrow> string \<Rightarrow> 'e world
     \<Rightarrow> (error + message) \<times> 'c SimpleBot \<times> 'e world" where
  "SimpleBot_call_with gen autorecord self human_message w =
     (case HumanMessage (PStr human_message) of
        Inl e \<Rightarrow> (Inl e, self, w)
      | Inr human \<Rightarrow>
          (let messages = [system_prompt self, human]
           in case gen self messages w of
                (Inl e, self1, w1) \<Rightarrow> (Inl e, self1, w1)
              | (Inr response, self1, w1) \<Rightarrow>
                  (let (r, x) = autorecord human_message response (ext w1);
                       w2 = w1\<lparr>ext := x,
                              events := events w1 @ [EvAutorecord human_message response]\<rparr>
                   in case r of
                        Some e \<Rightarrow> (Inl e, self1, w2)
                      | None \<Rightarrow> (AIMessage response, self1, w2))))"

definition SimpleBot_call ::
  "('c, 'e) create_fn \<Rightarrow> 'e autorecord_fn \<Rightarrow> 'c SimpleBot \<Rightarrow> string \<Rightarrow> 'e world
     \<Rightarrow> (error + message) \<times> 'c SimpleBot \<times> 'e world" where
  "SimpleBot_call create autorecord self human_message w =
     SimpleBot_call_with (generate_response create) autorecord self human_message w"

subsection \<open>Drivers used to state the properties\<close>

text \<open>
  What the streaming loop accumulates, written without the loop: the contents of
  the chunks that have one, in the order of the chunks.
\<close>

definition chunk_content :: "chunk \<Rightarrow> string option" where
  "chunk_content ch = (case choices ch of [] \<Rightarrow> None | c # _ \<Rightarrow> content (delta c))"

definition fragments :: "chunk list \<Rightarrow> string list" where
  "fragments chunks = List.map_filter chunk_content chunks"

definition mk_chunk :: "string option \<Rightarrow> chunk" where
  "mk_chunk s = \<lparr>choices = [\<lparr>delta = \<lparr>content = s\<rparr>\<rparr>]\<rparr>"

definition mk_completion :: "string \<Rightarrow> completion" where
  "mk_completion s = \<lparr>choices = [\<lparr>text = s\<rparr>]\<rparr>"

text \<open>
  A caller that invokes the same object once for each message of a list, going on
  after a call that raised, and collects the outcomes.
\<close>

fun call_many ::
  "('c, 'e) create_fn \<Rightarrow> 'e autorecord_fn \<Rightarrow> 'c SimpleBot \<Rightarrow> string list \<Rightarrow> 'e world
     \<Rightarrow> (error + message) list \<times> 'c SimpleBot \<times> 'e world" where
  "call_many create autorecord self [] w = ([], self, w)"
| "call_many create autorecord self (hm # hms) w =
     (case SimpleBot_call create autorecord self hm w of
        (r, self1, w1) \<Rightarrow>
          (case call_many create autorecord self1 hms w1 of
             (rs, self2, w2) \<Rightarrow> (r # rs, self2, w2)))"

text \<open>
  The generation step replaced by a mock with a fixed return value, as the test
  \<^verbatim>\<open>test_simple_bot_call\<close> does.
\<close>

definition mock_generate_response ::
  "pyval \<Rightarrow> 'c SimpleBot \<Rightarrow> message list \<Rightarrow> 'e world \<Rightarrow> (error + pyval) \<times> 'c SimpleBot \<times> 'e world" where
  "mock_generate_response return_value self messages w = (Inr return_value, self, w)"

text \<open>
  The process that imports the module. Executing the \<^verbatim>\<open>class\<close> statement evaluates
  the default \<^verbatim>\<open>default_language_model()\<close> of \<^verbatim>\<open>__init__\<close> against the configuration
  of that moment and stores the value with the function; a construction reads
  the stored value. \<^verbatim>\<open>default_language_model\<close> is a parameter: a function of the
  process-wide configuration.
\<close>

record 'cfg process =
  config :: 'cfg
  init_default_model_name :: "string option"

definition define_SimpleBot :: "('cfg \<Rightarrow> string) \<Rightarrow> 'cfg process \<Rightarrow> 'cfg process" where
  "define_SimpleBot default_language_model p =
     p\<lparr>init_default_model_name := Some (default_language_model (config p))\<rparr>"

definition set_config :: "'cfg \<Rightarrow> 'cfg process \<Rightarrow> 'cfg process" where
  "set_config c p = p\<lparr>config := c\<rparr>"

definition new_SimpleBot ::
  "(string \<Rightarrow> error + 'c) \<Rightarrow> 'cfg process \<Rightarrow> string \<Rightarrow> real option \<Rightarrow> string option
     \<Rightarrow> bool option \<Rightarrow> error + 'c SimpleBot" where
  "new_SimpleBot make_client p sp temperature_arg model_name_arg streaming_arg =
     (case init_default_model_name p of
        None \<Rightarrow> Inl NameError
      | Some d \<Rightarrow> SimpleBot_init d make_client sp temperature_arg model_name_arg streaming_arg)"

text \<open>Concrete collaborators and objects for the examples.\<close>

definition w0 :: "unit world" where
  "w0 = \<lparr>ext = (), events = []\<rparr>"

definition fixed_create :: "(error + response) \<Rightarrow> (unit, unit) create_fn" where
  "fixed_create res = (\<lambda>c m ds t s x. (res, x))"

definition quiet_recorder :: "unit autorecord_fn" where
  "quiet_recorder = (\<lambda>p r x. (None, x))"

definition failing_recorder :: "error \<Rightarrow> unit autorecord_fn" where
  "failing_recorder e = (\<lambda>p r x. (Some e, x))"

definition test_bot :: "bool \<Rightarrow> unit SimpleBot" where
  "test_bot st = \<lparr>system_prompt = Message System ''You are a bot.'', client = (),
                   model_name = ''gpt-4'', temperature = 0, streaming = st\<rparr>"

section \<open>Properties\<close>

lemma fragments_Nil: "fragments [] = []"
  by (simp add: fragments_def)

lemma fragments_Cons:
  "fragments (ch # chunks) =
     (case chunk_content ch of None \<Rightarrow> fragments chunks | Some s \<Rightarrow> s # fragments chunks)"
  by (simp add: fragments_def split: option.splits)

lemma stream_loop_accumulates:
  "\<forall>ch \<in> set chunks. choices ch \<noteq> [] \<Longrightarrow>
     stream_loop chunks acc w =
       (Inr (acc @ concat (fragments chunks)),
        w\<lparr>events := events w @ map EvPrint (fragments chunks)\<rparr>)"
proof (induction chunks arbitrary: acc w)
  case Nil
  show ?case by (simp add: fragments_Nil)
next
  case (Cons ch chunks)
  from Cons.prems obtain c cs where ch: "choices ch = c # cs"
    by (cases "choices ch") auto
  from Cons.prems have rest: "\<forall>ch \<in> set chunks. choices ch \<noteq> []"
    by simp
  show ?case
  proof (cases "content (delta c)")
    case None
    then show ?thesis
      using ch Cons.IH [OF rest] by (simp add: fragments_Cons chunk_content_def)
  next
    case (Some s)
    then show ?thesis
      using ch Cons.IH [OF rest] by (simp add: fragments_Cons chunk_content_def)
  qed
qed

lemma recorder_calls_append:
  "recorder_calls (xs @ ys) = recorder_calls xs @ recorder_calls ys"
  by (induction xs rule: recorder_calls.induct) simp_all

lemma recorder_calls_prints: "recorder_calls (map EvPrint ss) = []"
  by (induction ss) simp_all

lemma requests_append: "requests (xs @ ys) = requests xs @ requests ys"
  by (induction xs rule: requests.induct) simp_all

lemma requests_prints: "requests (map EvPrint ss) = []"
  by (induction ss) simp_all

lemma stream_loop_only_prints:
  "\<exists>ss. snd (stream_loop chunks acc w) = w\<lparr>events := events w @ map EvPrint ss\<rparr>"
proof (induction chunks arbitrary: acc w)
  case Nil
  have "snd (stream_loop [] acc w) = w\<lparr>events := events w @ map EvPrint []\<rparr>"
    by simp
  then show ?case by blast
next
  case (Cons ch chunks)
  show ?case
  proof (cases "choices ch")
    case Nil
    then have "snd (stream_loop (ch # chunks) acc w) = w\<lparr>events := events w @ map EvPrint []\<rparr>"
      by simp
    then show ?thesis by blast
  next
    case (Cons c cs)
    note ch = this
    show ?thesis
    proof (cases "content (delta c)")
      case None
      then show ?thesis using ch Cons.IH [of acc w] by simp
    next
      case (Some s)
      from Cons.IH [of "acc @ s" "w\<lparr>events := events w @ [EvPrint s]\<rparr>"]
      obtain ss where "snd (stream_loop chunks (acc @ s) (w\<lparr>events := events w @ [EvPrint s]\<rparr>))
          = w\<lparr>events := events w @ map EvPrint (s # ss)\<rparr>"
        by auto
      then have "snd (stream_loop (ch # chunks) acc w) = w\<lparr>events := events w @ map EvPrint (s # ss)\<rparr>"
        using ch Some by simp
      then show ?thesis by blast
    qed
  qed
qed

lemma generate_response_stream:
  assumes st: "streaming self"
    and cr: "create (client self) (model_name self) (map model_dump messages) (temperature self)
               (streaming self) (ext w) = (Inr (Stream chunks fault), x)"
    and wf: "\<forall>ch \<in> set chunks. choices ch \<noteq> []"
  shows "generate_response create self messages w =
           ((case fault of Some e \<Rightarrow> Inl e
             | None \<Rightarrow> Inr (PMsg (Message Assistant (concat (fragments chunks))))),
            self,
            w\<lparr>ext := x,
              events := events w @ EvCreate (model_name self) (map model_dump messages)
                                     (temperature self) (streaming self)
                                   # map EvPrint (fragments chunks)\<rparr>)"
  using st cr
  by (simp add: generate_response_def stream_loop_accumulates [OF wf] split: option.splits)

lemma generate_response_single:
  assumes st: "\<not> streaming self"
    and cr: "create (client self) (model_name self) (map model_dump messages) (temperature self)
               (streaming self) (ext w) = (Inr (Completion p), x)"
    and ch: "choices p = c # cs"
  shows "generate_response create self messages w =
           (Inr (PStr (text c)), self,
            w\<lparr>ext := x,
              events := events w @ [EvCreate (model_name self) (map model_dump messages)
                                     (temperature self) (streaming self)]\<rparr>)"
  using st cr ch by (simp add: generate_response_def)

lemma generate_response_fault:
  assumes cr: "create (client self) (model_name self) (map model_dump messages) (temperature self)
               (streaming self) (ext w) = (Inl e, x)"
  shows "generate_response create self messages w =
           (Inl e, self,
            w\<lparr>ext := x,
              events := events w @ [EvCreate (model_name self) (map model_dump messages)
                                     (temperature self) (streaming self)]\<rparr>)"
  using cr by (simp add: generate_response_def)

subsection \<open>The generation step\<close>

text \<open>
  C2. In streaming mode, for a stream that ends normally and whose chunks all
  carry a choice, the loop appends to the accumulator the contents of the chunks
  that are not null, in the order of arrival, and nothing for a chunk whose
  content is null: the accumulated text is the concatenation, in order, of the
  contents that are present, and \<^verbatim>\<open>generate_response\<close> returns that text. The chunks
  "Hel", "lo", null, " world" accumulate to "Hello world".
\<close>

theorem streaming_accumulates_in_arrival_order:
  assumes "streaming self"
    and "create (client self) (model_name self) (map model_dump messages) (temperature self)
           (streaming self) (ext w) = (Inr (Stream chunks None), x)"
    and "\<forall>ch \<in> set chunks. choices ch \<noteq> []"
  shows "fst (stream_loop chunks acc w) = Inr (acc @ concat (List.map_filter chunk_content chunks))
       \<and> fst (generate_response create self messages w) =
           Inr (PMsg (Message Assistant (concat (List.map_filter chunk_content chunks))))"
  using assms generate_response_stream [of self create messages w chunks None x]
    stream_loop_accumulates [of chunks acc w]
  by (simp add: fragments_def)

theorem streaming_accumulates_in_arrival_order_witness:
  "fst (generate_response
          (fixed_create (Inr (Stream [mk_chunk (Some ''Hel''), mk_chunk (Some ''lo''),
                                      mk_chunk None, mk_chunk (Some '' world'')] None)))
          (test_bot True) [] w0)
     = Inr (PMsg (Message Assistant ''Hello world''))"
  using streaming_accumulates_in_arrival_order [of "test_bot True"
      "fixed_create (Inr (Stream [mk_chunk (Some ''Hel''), mk_chunk (Some ''lo''),
                                      mk_chunk None, mk_chunk (Some '' world'')] None))"
      "[]" w0 "[mk_chunk (Some ''Hel''), mk_chunk (Some ''lo''),
                                      mk_chunk None, mk_chunk (Some '' world'')]" "()"]
  by (simp add: test_bot_def fixed_create_def mk_chunk_def chunk_content_def List.map_filter_def)

text \<open>
  C3. What \<^verbatim>\<open>generate_response\<close> returns depends on the streaming flag. With
  streaming on, a stream that ends normally yields the accumulated text wrapped
  as an AI message. With streaming off, the text of the first choice of the
  payload is returned as plain text, not wrapped: a payload with the text
  "Hi there" yields the string "Hi there".
\<close>

theorem return_type_depends_on_streaming:
  assumes "create (client self) (model_name self) (map model_dump messages) (temperature self)
           (streaming self) (ext w) = (Inr response, x)"
  shows "(streaming self \<and> response = Stream chunks None \<and> (\<forall>ch \<in> set chunks. choices ch \<noteq> [])
            \<longrightarrow> fst (generate_response create self messages w) =
                  Inr (PMsg (Message Assistant (concat (fragments chunks)))))
       \<and> (\<not> streaming self \<and> response = Completion p \<and> choices p = c # cs
            \<longrightarrow> fst (generate_response create self messages w) = Inr (PStr (text c)))"
  using assms generate_response_stream [of self create messages w chunks None x]
    generate_response_single [of self create messages w p x c cs]
  by auto

theorem return_type_depends_on_streaming_witness:
  "fst (generate_response
          (fixed_create (Inr (Stream [mk_chunk (Some ''Hi''), mk_chunk (Some '' there'')] None)))
          (test_bot True) [] w0)
     = Inr (PMsg (Message Assistant ''Hi there''))
   \<and> fst (generate_response (fixed_create (Inr (Completion (mk_completion ''Hi there''))))
          (test_bot False) [] w0)
     = Inr (PStr ''Hi there'')"
  using return_type_depends_on_streaming [of
      "fixed_create (Inr (Stream [mk_chunk (Some ''Hi''), mk_chunk (Some '' there'')] None))"
      "test_bot True" "[]" w0
      "Stream [mk_chunk (Some ''Hi''), mk_chunk (Some '' there'')] None" "()"
      "[mk_chunk (Some ''Hi''), mk_chunk (Some '' there'')]"]
    return_type_depends_on_streaming [of
      "fixed_create (Inr (Completion (mk_completion ''Hi there'')))"
      "test_bot False" "[]" w0 "Completion (mk_completion ''Hi there'')" "()" "[]"
      "mk_completion ''Hi there''" "\<lparr>text = ''Hi there''\<rparr>" "[]"]
  by (simp add: test_bot_def fixed_create_def mk_chunk_def mk_completion_def fragments_def
      chunk_content_def List.map_filter_def)

subsection \<open>Construction\<close>

text \<open>
  C6. For valid arguments, that is whenever \<^verbatim>\<open>make_client\<close> resolves the model
  name, the constructor builds the object and stores its arguments as they are:
  the system prompt is the System message whose content is the supplied string,
  and \<^verbatim>\<open>model_name\<close>, \<^verbatim>\<open>temperature\<close> and \<^verbatim>\<open>streaming\<close> are the supplied values, with
  temperature 0.0 and streaming true when omitted (and the default model name
  when that is omitted). No range is checked, so this holds for every
  temperature, in particular for those in [0,1]. The temperature is only stored
  and compared, never computed with, so a real number stands for the float.
\<close>

theorem init_stores_arguments_verbatim:
  assumes "make_client (case model_name_arg of None \<Rightarrow> d | Some m \<Rightarrow> m) = Inr c"
  shows "SimpleBot_init d make_client sp temperature_arg model_name_arg streaming_arg =
           Inr \<lparr>system_prompt = Message System sp, client = c,
                 model_name = (case model_name_arg of None \<Rightarrow> d | Some m \<Rightarrow> m),
                 temperature = (case temperature_arg of None \<Rightarrow> 0 | Some t \<Rightarrow> t),
                 streaming = (case streaming_arg of None \<Rightarrow> True | Some s \<Rightarrow> s)\<rparr>"
  using assms by (simp add: SimpleBot_init_def Let_def split: option.splits)

theorem init_stores_arguments_verbatim_witness:
  "SimpleBot_init ''gpt-4'' (\<lambda>m. if m = ''unknown'' then Inl (ClientResolutionError m) else Inr m)
       ''Be brief.'' (Some 1) (Some ''mistral/mistral-medium'') (Some False)
     = Inr \<lparr>system_prompt = Message System ''Be brief.'', client = ''mistral/mistral-medium'',
            model_name = ''mistral/mistral-medium'', temperature = 1, streaming = False\<rparr>
   \<and> SimpleBot_init ''gpt-4'' (\<lambda>m. if m = ''unknown'' then Inl (ClientResolutionError m) else Inr m)
       [] None None None
     = Inr \<lparr>system_prompt = Message System [], client = ''gpt-4'',
            model_name = ''gpt-4'', temperature = 0, streaming = True\<rparr>"
  using init_stores_arguments_verbatim [where
      make_client = "\<lambda>m. if m = ''unknown'' then Inl (ClientResolutionError m) else Inr m"
      and model_name_arg = "Some ''mistral/mistral-medium''" and d = "''gpt-4''"
      and c = "''mistral/mistral-medium''" and sp = "''Be brief.''"
      and temperature_arg = "Some 1" and streaming_arg = "Some False"]
    init_stores_arguments_verbatim [where
      make_client = "\<lambda>m. if m = ''unknown'' then Inl (ClientResolutionError m) else Inr m"
      and model_name_arg = None and d = "''gpt-4''" and c = "''gpt-4''" and sp = "[]"
      and temperature_arg = None and streaming_arg = None]
  by simp

lemma fold_set_config_keeps_default:
  "init_default_model_name (fold set_config changes q) = init_default_model_name q"
  by (induction changes arbitrary: q) (simp_all add: set_config_def)

text \<open>
  C10. The default model name is the value of \<^verbatim>\<open>default_language_model()\<close> at the
  moment the class statement was executed: an object constructed without a model
  name gets that value, whatever changes the process-wide configuration has
  gone through since.
\<close>

theorem default_model_name_fixed_at_class_definition:
  assumes "new_SimpleBot make_client (fold set_config changes (define_SimpleBot default_language_model p))
             sp temperature_arg None streaming_arg = Inr obj"
  shows "model_name obj = default_language_model (config p)"
proof -
  have "init_default_model_name (fold set_config changes (define_SimpleBot default_language_model p))
      = Some (default_language_model (config p))"
    by (simp add: fold_set_config_keeps_default define_SimpleBot_def)
  with assms show ?thesis
    by (auto simp: new_SimpleBot_def SimpleBot_init_def Let_def split: sum.splits)
qed

theorem default_model_name_fixed_at_class_definition_witness:
  "new_SimpleBot (\<lambda>m. Inr ()) (fold set_config [''mistral/mistral-medium'', ''gpt-4'']
       (define_SimpleBot (\<lambda>c. c) \<lparr>config = ''gpt-3.5-turbo'', init_default_model_name = None\<rparr>))
     ''Be brief.'' None None None
   = Inr \<lparr>system_prompt = Message System ''Be brief.'', client = (),
          model_name = ''gpt-3.5-turbo'', temperature = 0, streaming = True\<rparr>
   \<and> config (fold set_config [''mistral/mistral-medium'', ''gpt-4'']
       (define_SimpleBot (\<lambda>c. c) \<lparr>config = ''gpt-3.5-turbo'', init_default_model_name = None\<rparr>))
      = ''gpt-4''"
  using default_model_name_fixed_at_class_definition [of "\<lambda>m. Inr ()"
      "[''mistral/mistral-medium'', ''gpt-4'']" "\<lambda>c. c"
      "\<lparr>config = ''gpt-3.5-turbo'', init_default_model_name = None\<rparr>" "''Be brief.''" None None
      "\<lparr>system_prompt = Message System ''Be brief.'', client = (),
          model_name = ''gpt-3.5-turbo'', temperature = 0, streaming = True\<rparr>"]
  by (simp add: new_SimpleBot_def define_SimpleBot_def set_config_def SimpleBot_init_def)

subsection \<open>The call\<close>

lemma call_when_generation_raises:
  assumes "generate_response create self [system_prompt self, Message User hm] w
             = (Inl e, self1, w1)"
  shows "SimpleBot_call create autorecord self hm w = (Inl e, self1, w1)"
  using assms by (simp add: SimpleBot_call_def SimpleBot_call_with_def)

lemma call_when_generation_returns:
  assumes "generate_response create self [system_prompt self, Message User hm] w
             = (Inr response, self1, w1)"
    and "autorecord hm response (ext w1) = (r, x)"
  shows "SimpleBot_call create autorecord self hm w =
           ((case r of Some e \<Rightarrow> Inl e | None \<Rightarrow> AIMessage response), self1,
            w1\<lparr>ext := x, events := events w1 @ [EvAutorecord hm response]\<rparr>)"
  using assms by (simp add: SimpleBot_call_def SimpleBot_call_with_def split: option.splits)

text \<open>
  C1. With the generation step mocked to return the AI message \<open>R\<close> with the
  content "Test response", as in \<^verbatim>\<open>test_simple_bot_call\<close>, the recorder is invoked
  once, with the human message and \<open>R\<close>; then the last line calls
  \<^verbatim>\<open>AIMessage(content=R)\<close> on the message \<open>R\<close>, which is not text, and the call raises
  \<open>ValidationError\<close>. No AI message with the content of \<open>R\<close> is returned, as the test
  asserts it is.
\<close>

theorem mocked_call_raises_on_the_final_wrap:
  "SimpleBot_call_with (mock_generate_response (PMsg (Message Assistant ''Test response'')))
       quiet_recorder (test_bot True) [] w0
     = (Inl ValidationError, test_bot True,
        \<lparr>ext = (), events = [EvAutorecord [] (PMsg (Message Assistant ''Test response''))]\<rparr>)"
  by (simp add: SimpleBot_call_with_def mock_generate_response_def quiet_recorder_def w0_def)

text \<open>
  C4. A fault that the client raises during the generation step, when the
  request is made or while the stream is read, is what the call raises,
  unchanged; nothing is returned, the recorder is not invoked, and the call has
  sent one request only (no retry).
\<close>

theorem client_fault_propagates_unrecorded:
  assumes "create (client self) (model_name self)
             (map model_dump [system_prompt self, Message User hm])
             (temperature self) (streaming self) (ext w) = (res, x)"
    and "res = Inl err
         \<or> (streaming self \<and> res = Inr (Stream chunks (Some err))
              \<and> (\<forall>ch \<in> set chunks. choices ch \<noteq> []))"
  shows "fst (SimpleBot_call create autorecord self hm w) = Inl err
       \<and> recorder_calls (events (snd (snd (SimpleBot_call create autorecord self hm w))))
           = recorder_calls (events w)
       \<and> length (requests (events (snd (snd (SimpleBot_call create autorecord self hm w)))))
           = Suc (length (requests (events w)))"
  using assms(2)
proof
  assume "res = Inl err"
  with assms(1) show ?thesis
    using call_when_generation_raises [OF generate_response_fault, of create self _ w err x autorecord]
    by (simp add: recorder_calls_append requests_append)
next
  assume a: "streaming self \<and> res = Inr (Stream chunks (Some err))
              \<and> (\<forall>ch \<in> set chunks. choices ch \<noteq> [])"
  with assms(1) have "generate_response create self [system_prompt self, Message User hm] w
      = (Inl err, self,
         w\<lparr>ext := x,
           events := events w @ EvCreate (model_name self)
               (map model_dump [system_prompt self, Message User hm])
               (temperature self) (streaming self) # map EvPrint (fragments chunks)\<rparr>)"
    using generate_response_stream [of self create "[system_prompt self, Message User hm]"
        w chunks "Some err" x]
    by simp
  from call_when_generation_raises [OF this] show ?thesis
    by (simp add: recorder_calls_append recorder_calls_prints requests_append requests_prints)
qed

theorem client_fault_propagates_unrecorded_witness:
  "fst (SimpleBot_call (fixed_create (Inl (APIError ''rate limit''))) quiet_recorder
          (test_bot True) ''hello'' w0) = Inl (APIError ''rate limit'')
   \<and> recorder_calls (events (snd (snd (SimpleBot_call (fixed_create (Inl (APIError ''rate limit'')))
          quiet_recorder (test_bot True) ''hello'' w0)))) = []
   \<and> fst (SimpleBot_call
          (fixed_create (Inr (Stream [mk_chunk (Some ''Hel'')] (Some (TransportError ''reset'')))))
          quiet_recorder (test_bot True) ''hello'' w0) = Inl (TransportError ''reset'')"
  using client_fault_propagates_unrecorded [of "fixed_create (Inl (APIError ''rate limit''))"
      "test_bot True" "''hello''" w0 "Inl (APIError ''rate limit'')" "()" "APIError ''rate limit''"
      "[]" quiet_recorder]
    client_fault_propagates_unrecorded [of
      "fixed_create (Inr (Stream [mk_chunk (Some ''Hel'')] (Some (TransportError ''reset''))))"
      "test_bot True" "''hello''" w0
      "Inr (Stream [mk_chunk (Some ''Hel'')] (Some (TransportError ''reset'')))" "()"
      "TransportError ''reset''" "[mk_chunk (Some ''Hel'')]" quiet_recorder]
  by (simp add: fixed_create_def test_bot_def w0_def mk_chunk_def)

text \<open>
  C5, as stated, fails: \<^verbatim>\<open>__call__\<close> has no handler around \<^verbatim>\<open>autorecord\<close>. With a
  recorder that raises, the call raises the recorder's fault and returns no AI
  message.
\<close>

theorem recorder_fault_reaches_the_caller:
  "fst (SimpleBot_call (fixed_create (Inr (Completion (mk_completion ''Hi there''))))
          (failing_recorder (RecorderError ''disk full'')) (test_bot False) ''hello'' w0)
     = Inl (RecorderError ''disk full'')"
  by (simp add: SimpleBot_call_def SimpleBot_call_with_def generate_response_def fixed_create_def
      failing_recorder_def test_bot_def w0_def mk_completion_def)

text \<open>
  C5, amended. A fault of the recorder is not caught: after a generation step
  that returned, a recorder that raises makes the call raise the same fault, and
  no AI message is returned. When the recorder returns normally and the
  generation step returned text, the call returns the AI message with that text.
\<close>

theorem recorder_outcome_decides_the_call:
  assumes "generate_response create self [system_prompt self, Message User hm] w
             = (Inr response, self1, w1)"
    and "autorecord hm response (ext w1) = (r, x)"
  shows "(\<forall>e. r = Some e \<longrightarrow> fst (SimpleBot_call create autorecord self hm w) = Inl e)
       \<and> (\<forall>s. r = None \<and> response = PStr s \<longrightarrow>
             fst (SimpleBot_call create autorecord self hm w) = Inr (Message Assistant s))"
  using call_when_generation_returns [where autorecord = autorecord, OF assms] by auto

theorem recorder_outcome_decides_the_call_witness:
  "fst (SimpleBot_call (fixed_create (Inr (Completion (mk_completion ''Hi there''))))
          quiet_recorder (test_bot False) ''hello'' w0)
     = Inr (Message Assistant ''Hi there'')
   \<and> fst (SimpleBot_call (fixed_create (Inr (Completion (mk_completion ''Hi there''))))
          (failing_recorder (RecorderError ''disk full'')) (test_bot False) ''hello'' w0)
     = Inl (RecorderError ''disk full'')
   \<and> fst (SimpleBot_call (fixed_create (Inr (Stream [mk_chunk (Some ''Hi there'')] None)))
          (failing_recorder (RecorderError ''disk full'')) (test_bot True) ''hello'' w0)
     = Inl (RecorderError ''disk full'')"
proof -
  let ?create = "fixed_create (Inr (Completion (mk_completion ''Hi there'')))"
  let ?w1 = "\<lparr>ext = (), events = [EvCreate ''gpt-4''
      (map model_dump [system_prompt (test_bot False), Message User ''hello'']) 0 False]\<rparr>"
  have g: "generate_response ?create (test_bot False)
             [system_prompt (test_bot False), Message User ''hello''] w0
           = (Inr (PStr ''Hi there''), test_bot False, ?w1)"
    by (simp add: generate_response_def fixed_create_def test_bot_def w0_def mk_completion_def)
  have q: "quiet_recorder ''hello'' (PStr ''Hi there'') (ext ?w1) = (None, ())"
    by (simp add: quiet_recorder_def)
  have f: "failing_recorder (RecorderError ''disk full'') ''hello'' (PStr ''Hi there'') (ext ?w1)
             = (Some (RecorderError ''disk full''), ())"
    by (simp add: failing_recorder_def)
  let ?screate = "fixed_create (Inr (Stream [mk_chunk (Some ''Hi there'')] None))"
  let ?w2 = "\<lparr>ext = (), events = [EvCreate ''gpt-4''
      (map model_dump [system_prompt (test_bot True), Message User ''hello'']) 0 True,
      EvPrint ''Hi there'']\<rparr>"
  have sg: "generate_response ?screate (test_bot True)
             [system_prompt (test_bot True), Message User ''hello''] w0
           = (Inr (PMsg (Message Assistant ''Hi there'')), test_bot True, ?w2)"
    by (simp add: generate_response_def fixed_create_def test_bot_def w0_def mk_chunk_def)
  have sf: "failing_recorder (RecorderError ''disk full'') ''hello''
             (PMsg (Message Assistant ''Hi there'')) (ext ?w2)
             = (Some (RecorderError ''disk full''), ())"
    by (simp add: failing_recorder_def)
  show ?thesis
    using recorder_outcome_decides_the_call [where autorecord = quiet_recorder, OF g q]
      recorder_outcome_decides_the_call
        [where autorecord = "failing_recorder (RecorderError ''disk full'')", OF g f]
      recorder_outcome_decides_the_call
        [where autorecord = "failing_recorder (RecorderError ''disk full'')", OF sg sf]
    by simp
qed

subsection \<open>What a call leaves behind\<close>

lemma generate_response_keeps_self:
  "fst (snd (generate_response create self ms w)) = self"
  by (simp add: generate_response_def Let_def
      split: prod.splits sum.splits response.splits option.splits list.splits)

lemma generate_response_events:
  "\<exists>ss. events (snd (snd (generate_response create self ms w))) =
          events w @ EvCreate (model_name self) (map model_dump ms) (temperature self)
                      (streaming self) # map EvPrint ss"
proof -
  let ?ev = "EvCreate (model_name self) (map model_dump ms) (temperature self) (streaming self)"
  obtain res x where cr: "create (client self) (model_name self) (map model_dump ms)
      (temperature self) (streaming self) (ext w) = (res, x)"
    by (cases "create (client self) (model_name self) (map model_dump ms)
      (temperature self) (streaming self) (ext w)")
  let ?w1 = "w\<lparr>ext := x, events := events w @ [?ev]\<rparr>"
  have plain: "events ?w1 = events w @ ?ev # map EvPrint []"
    by simp
  show ?thesis
  proof (cases "\<exists>chunks fault. streaming self \<and> res = Inr (Stream chunks fault)")
    case True
    then obtain chunks fault where st: "streaming self" and res: "res = Inr (Stream chunks fault)"
      by blast
    obtain ss where ss: "snd (stream_loop chunks [] ?w1) = ?w1\<lparr>events := events ?w1 @ map EvPrint ss\<rparr>"
      using stream_loop_only_prints [of chunks "[]" ?w1] by blast
    have "events (snd (snd (generate_response create self ms w))) = events (snd (stream_loop chunks [] ?w1))"
      using cr st res
      by (simp add: generate_response_def split: prod.splits sum.splits option.splits)
    then have "events (snd (snd (generate_response create self ms w))) = events w @ ?ev # map EvPrint ss"
      using ss by simp
    then show ?thesis by blast
  next
    case False
    then have "events (snd (snd (generate_response create self ms w))) = events ?w1"
      using cr
      by (auto simp: generate_response_def Let_def split: sum.splits response.splits list.splits)
    with plain have "events (snd (snd (generate_response create self ms w))) =
        events w @ ?ev # map EvPrint []"
      by simp
    then show ?thesis by (rule exI)
  qed
qed

lemma generate_response_requests:
  "requests (events (snd (snd (generate_response create self ms w)))) =
     requests (events w) @ [(model_name self, map model_dump ms, temperature self, streaming self)]"
  using generate_response_events [of create self ms w]
  by (auto simp: requests_append requests_prints)

lemma generate_response_recorder_calls:
  "recorder_calls (events (snd (snd (generate_response create self ms w)))) = recorder_calls (events w)"
  using generate_response_events [of create self ms w]
  by (auto simp: recorder_calls_append recorder_calls_prints)

lemma call_keeps_self:
  "fst (snd (SimpleBot_call create autorecord self hm w)) = self"
proof (cases "generate_response create self [system_prompt self, Message User hm] w")
  case (fields res self1 w1)
  with generate_response_keeps_self [of create self "[system_prompt self, Message User hm]" w]
  show ?thesis
    by (simp add: SimpleBot_call_def SimpleBot_call_with_def Let_def
        split: sum.splits prod.splits option.splits)
qed

lemma call_requests:
  "requests (events (snd (snd (SimpleBot_call create autorecord self hm w)))) =
     requests (events w) @
       [(model_name self, map model_dump [system_prompt self, Message User hm],
         temperature self, streaming self)]"
proof (cases "generate_response create self [system_prompt self, Message User hm] w")
  case (fields res self1 w1)
  with generate_response_requests [of create self "[system_prompt self, Message User hm]" w]
  show ?thesis
    by (simp add: SimpleBot_call_def SimpleBot_call_with_def Let_def requests_append
        split: sum.splits prod.splits option.splits)
qed

text \<open>
  C7. A call assigns to no attribute of the object: after any sequence of calls,
  whether they returned or raised, the object (\<^verbatim>\<open>system_prompt\<close>, \<^verbatim>\<open>client\<close>,
  \<^verbatim>\<open>model_name\<close>, \<^verbatim>\<open>temperature\<close>, \<^verbatim>\<open>streaming\<close>) is the one it was. No
  conversation state persists: the request of each call of the sequence carries
  the system prompt and that call's human message, and nothing of earlier calls.
\<close>

theorem calls_leave_the_configuration_unchanged:
  "fst (snd (call_many create autorecord self hms w)) = self
   \<and> requests (events (snd (snd (call_many create autorecord self hms w)))) =
       requests (events w) @
         map (\<lambda>hm. (model_name self, map model_dump [system_prompt self, Message User hm],
                     temperature self, streaming self)) hms"
proof (induction hms arbitrary: w)
  case Nil
  show ?case by simp
next
  case (Cons hm hms)
  obtain r self1 w1 where c: "SimpleBot_call create autorecord self hm w = (r, self1, w1)"
    by (cases "SimpleBot_call create autorecord self hm w")
  have s1: "self1 = self"
    using call_keeps_self [of create autorecord self hm w] c by simp
  have r1: "requests (events w1) = requests (events w) @
       [(model_name self, map model_dump [system_prompt self, Message User hm],
         temperature self, streaming self)]"
    using call_requests [of create autorecord self hm w] c by simp
  obtain rs self2 w2 where m: "call_many create autorecord self hms w1 = (rs, self2, w2)"
    by (cases "call_many create autorecord self hms w1")
  from Cons.IH [of w1] m have "self2 = self" and
    "requests (events w2) = requests (events w1) @
         map (\<lambda>hm. (model_name self, map model_dump [system_prompt self, Message User hm],
                     temperature self, streaming self)) hms"
    by simp_all
  with c s1 r1 m show ?case by simp
qed



lemma streaming_generation_returns_message:
  assumes "streaming self" and "generate_response create self ms w = (Inr r, self1, w1)"
  shows "\<exists>acc. r = PMsg (Message Assistant acc)"
  using assms
  by (auto simp: generate_response_def Let_def
      split: prod.splits sum.splits response.splits option.splits)

text \<open>
  C9, as stated, fails: with streaming on, \<^verbatim>\<open>__call__\<close> does call
  \<^verbatim>\<open>AIMessage(content=...)\<close> on the AI message that the generation step returned,
  but no nested message results: the content is not text, the constructor
  raises, and the call raises with it.
\<close>

theorem streaming_call_raises_instead_of_nesting:
  "fst (SimpleBot_call
          (fixed_create (Inr (Stream [mk_chunk (Some ''Hel''), mk_chunk (Some ''lo'')] None)))
          quiet_recorder (test_bot True) ''hi'' w0)
     = Inl ValidationError"
  by (simp add: SimpleBot_call_def SimpleBot_call_with_def generate_response_def
      fixed_create_def quiet_recorder_def test_bot_def w0_def mk_chunk_def)

text \<open>
  C9, amended. With streaming on, a generation step that returns, returns an AI
  message and not text (against its declared return type), and the call passes
  that message, not plain text, to the recorder.
\<close>

theorem streaming_call_records_ai_message:
  assumes "streaming self"
    and "generate_response create self [system_prompt self, Message User hm] w
           = (Inr r, self1, w1)"
  shows "\<exists>acc. r = PMsg (Message Assistant acc)
           \<and> recorder_calls (events (snd (snd (SimpleBot_call create autorecord self hm w))))
               = recorder_calls (events w) @ [(hm, PMsg (Message Assistant acc))]"
proof -
  from streaming_generation_returns_message [OF assms]
  obtain acc where r: "r = PMsg (Message Assistant acc)"
    by blast
  obtain res x where a: "autorecord hm r (ext w1) = (res, x)"
    by (cases "autorecord hm r (ext w1)")
  have rc: "recorder_calls (events w1) = recorder_calls (events w)"
    using generate_response_recorder_calls
      [of create self "[system_prompt self, Message User hm]" w] assms(2)
    by simp
  have "recorder_calls (events (snd (snd (SimpleBot_call create autorecord self hm w))))
               = recorder_calls (events w) @ [(hm, PMsg (Message Assistant acc))]"
    using call_when_generation_returns [where autorecord = autorecord, OF assms(2) a] r rc
    by (simp add: recorder_calls_append)
  with r show ?thesis by blast
qed

theorem streaming_call_records_ai_message_witness:
  "fst (generate_response
          (fixed_create (Inr (Stream [mk_chunk (Some ''Hel''), mk_chunk (Some ''lo'')] None)))
          (test_bot True) [system_prompt (test_bot True), Message User ''hi''] w0)
     = Inr (PMsg (Message Assistant ''Hello''))
   \<and> recorder_calls (events (snd (snd (SimpleBot_call
          (fixed_create (Inr (Stream [mk_chunk (Some ''Hel''), mk_chunk (Some ''lo'')] None)))
          quiet_recorder (test_bot True) ''hi'' w0))))
     = [(''hi'', PMsg (Message Assistant ''Hello''))]"
proof -
  let ?create = "fixed_create (Inr (Stream [mk_chunk (Some ''Hel''), mk_chunk (Some ''lo'')] None))"
  let ?w1 = "\<lparr>ext = (),
       events = [EvCreate ''gpt-4''
                   [[(''role'', PStr ''system''), (''content'', PStr ''You are a bot.'')],
                    [(''role'', PStr ''user''), (''content'', PStr ''hi'')]] 0 True,
                 EvPrint ''Hel'', EvPrint ''lo'']\<rparr>"
  have g: "generate_response ?create (test_bot True)
             [system_prompt (test_bot True), Message User ''hi''] w0
           = (Inr (PMsg (Message Assistant ''Hello'')), test_bot True, ?w1)"
    by (simp add: generate_response_def fixed_create_def test_bot_def w0_def mk_chunk_def
        model_dump_def)
  have s: "streaming (test_bot True)"
    by (simp add: test_bot_def)
  show ?thesis
    using streaming_call_records_ai_message [where autorecord = quiet_recorder, OF s g] g
    by (simp add: w0_def)
qed

end
